theory Spec2Isabelle
  imports Complex_Main "HOL-Library.Stream" "HOL-Library.Word"
begin

section \<open>Values and errors\<close>

text \<open>
  Python floats are modelled by exact rationals: the model computes the value the float
  operation approximates, so nothing below speaks about rounding. The values that
  \<open>random.random()\<close> returns, the multiples of \<open>2^-53\<close> in \<open>[0, 1)\<close>, are exact in
  both. A float sum of non-negative values is \<open>0.0\<close> exactly when every summand is, as
  the exact sum, so whether a division raises is the same in the model and in the code.
\<close>

type_synonym pyfloat = rat

type_synonym byte = "8 word"

datatype error = ValueError | ZeroDivisionError | IndexError | StructError
  | OSError | AttributeError | PicklingError

definition bindE :: "error + 'a \<Rightarrow> ('a \<Rightarrow> error + 'b) \<Rightarrow> error + 'b" where
  "bindE r f = (case r of Inl e \<Rightarrow> Inl e | Inr x \<Rightarrow> f x)"

section \<open>Global configuration\<close>

text \<open>
  The module constants that fix the object counts are the fields of a record, so that
  statements can range over configurations; \<open>default_config\<close> holds the values of
  the source.
\<close>

record config =
  NUM_GALAXIES :: int
  STAR_COUNT_RANGE :: "int \<times> int"
  PLANET_COUNT_RANGE :: "int \<times> int"
  BH_COUNT_RANGE :: "int \<times> int"
  NEBULA_COUNT_RANGE :: "int \<times> int"
  ASTEROID_COUNT_RANGE :: "int \<times> int"
  COMET_COUNT_RANGE :: "int \<times> int"

definition default_config :: config where
  "default_config = \<lparr> NUM_GALAXIES = 200, STAR_COUNT_RANGE = (10, 200),
     PLANET_COUNT_RANGE = (0, 15), BH_COUNT_RANGE = (0, 3), NEBULA_COUNT_RANGE = (0, 5),
     ASTEROID_COUNT_RANGE = (50, 200), COMET_COUNT_RANGE = (10, 50) \<rparr>"


definition MIN_MASS :: pyfloat where "MIN_MASS = 10 ^ 20"
definition MAX_MASS :: pyfloat where "MAX_MASS = 10 ^ 40"
definition MIN_TEMP :: pyfloat where "MIN_TEMP = 2"
definition MAX_TEMP :: pyfloat where "MAX_TEMP = 10 ^ 7"

definition MINERAL_TYPES :: "string list" where
  "MINERAL_TYPES = [''Iron'', ''Silicon'', ''Magnesium'', ''Oxygen'',
                    ''Carbon'', ''Nickel'', ''Sulfur'', ''Aluminum'']"

definition LIFE_PROBABILITY :: pyfloat where "LIFE_PROBABILITY = 5 / 10000"

section \<open>The random source\<close>

text \<open>
  The process-wide generator of Python's \<open>random\<close> module is a stream of raw outcomes
  that is passed through every call: each primitive consumes the head and maps it onto
  its range, so every value the library can return is the image of some stream, and
  every stream gives a value in range.
  \<^item> \<open>random.random()\<close> returns \<open>k / 2^53\<close> for some \<open>k < 2^53\<close>;
  \<^item> \<open>random.randint(a, b)\<close> is \<open>randrange(a, b + 1)\<close>: it raises ValueError when
    the width \<open>b + 1 - a\<close> is not positive and returns \<open>a + _randbelow(width)\<close>
    otherwise;
  \<^item> \<open>random.uniform(a, b)\<close> is \<open>a + (b - a) * random()\<close>;
  \<^item> \<open>random.choice(seq)\<close> is \<open>seq[_randbelow(len(seq))]\<close>, IndexError on an
    empty sequence.
\<close>

type_synonym rng = "nat stream"

definition random_random :: "rng \<Rightarrow> pyfloat \<times> rng" where
  "random_random g = (of_nat (shd g mod 2 ^ 53) / 2 ^ 53, stl g)"

definition randint :: "int \<Rightarrow> int \<Rightarrow> rng \<Rightarrow> error + (int \<times> rng)" where
  "randint a b g =
     (let width = b + 1 - a
      in if 0 < width then Inr (a + int (shd g mod nat width), stl g)
         else Inl ValueError)"

definition uniform :: "pyfloat \<Rightarrow> pyfloat \<Rightarrow> rng \<Rightarrow> pyfloat \<times> rng" where
  "uniform a b g = (case random_random g of (u, g') \<Rightarrow> (a + (b - a) * u, g'))"

definition choice :: "'a list \<Rightarrow> rng \<Rightarrow> error + ('a \<times> rng)" where
  "choice seq g =
     (if seq = [] then Inl IndexError
      else Inr (seq ! (shd g mod length seq), stl g))"

section \<open>Utility functions\<close>

definition random_mass :: "rng \<Rightarrow> pyfloat \<times> rng" where
  "random_mass g = uniform MIN_MASS MAX_MASS g"

definition random_temperature :: "rng \<Rightarrow> pyfloat \<times> rng" where
  "random_temperature g = uniform MIN_TEMP MAX_TEMP g"

text \<open>\<open>weights = [random.random() for _ in MINERAL_TYPES]\<close>\<close>

fun draw_weights :: "'a list \<Rightarrow> rng \<Rightarrow> pyfloat list \<times> rng" where
  "draw_weights [] g = ([], g)"
| "draw_weights (m # ms) g =
     (case random_random g of (w, g1) \<Rightarrow>
        (case draw_weights ms g1 of (ws, g2) \<Rightarrow> (w # ws, g2)))"

text \<open>Float division: \<open>x / 0.0\<close> raises ZeroDivisionError.\<close>

definition truediv :: "pyfloat \<Rightarrow> pyfloat \<Rightarrow> error + pyfloat" where
  "truediv x y = (if y = 0 then Inl ZeroDivisionError else Inr (x / y))"

text \<open>
  \<open>{mineral: wt / total for mineral, wt in zip(MINERAL_TYPES, weights)}\<close>: the
  entries are computed in order, and the first division that raises ends the
  comprehension.
\<close>

fun normalise :: "pyfloat \<Rightarrow> (string \<times> pyfloat) list \<Rightarrow> error + (string \<times> pyfloat) list" where
  "normalise tot [] = Inr []"
| "normalise tot ((mineral, wt) # rest) =
     bindE (truediv wt tot) (\<lambda>q.
     bindE (normalise tot rest) (\<lambda>d. Inr ((mineral, q) # d)))"

definition random_minerals :: "rng \<Rightarrow> error + ((string \<times> pyfloat) list \<times> rng)" where
  "random_minerals g =
     (case draw_weights MINERAL_TYPES g of (weights, g') \<Rightarrow>
        (let tot = sum_list weights
         in bindE (normalise tot (zip MINERAL_TYPES weights)) (\<lambda>d. Inr (d, g'))))"

definition random_bool_chance :: "pyfloat \<Rightarrow> rng \<Rightarrow> bool \<times> rng" where
  "random_bool_chance p g = (case random_random g of (u, g') \<Rightarrow> (u < p, g'))"

section \<open>Data classes for celestial objects\<close>

record Planet =
  code :: string
  mass :: pyfloat
  temperature :: pyfloat
  has_life :: bool
  minerals :: "(string \<times> pyfloat) list"

record Star =
  code :: string
  mass :: pyfloat
  temperature :: pyfloat
  spectral_type :: string
  planets :: "Planet list"

record BlackHole =
  code :: string
  mass :: pyfloat
  spin :: pyfloat

record Nebula =
  code :: string
  mass :: pyfloat
  temperature :: pyfloat
  composition :: "(string \<times> pyfloat) list"

record Asteroid =
  code :: string
  mass :: pyfloat
  composition :: "(string \<times> pyfloat) list"

record Comet =
  code :: string
  mass :: pyfloat
  tail_length_km :: pyfloat

record Galaxy =
  code :: string
  stars :: "Star list"
  black_holes :: "BlackHole list"
  nebulae :: "Nebula list"
  asteroids :: "Asteroid list"
  comets :: "Comet list"

record Universe =
  galaxies :: "Galaxy list"

section \<open>Reference codes\<close>

text \<open>\<open>str(n)\<close> of a non-negative integer, as an f-string field \<open>{n}\<close> renders it.\<close>

definition digit_char :: "nat \<Rightarrow> char" where
  "digit_char d = ''0123456789'' ! d"

fun py_str :: "nat \<Rightarrow> string" where
  "py_str n = (if n < 10 then [digit_char n]
               else py_str (n div 10) @ [digit_char (n mod 10)])"

declare py_str.simps [simp del]

section \<open>Generation functions\<close>

text \<open>
  Every generator has the shape \<open>xs = []; for i in range(n): ...; xs.append(x)\<close>.
  \<open>for_append body is xs g\<close> runs the body for the indices \<open>is\<close> in order, passing
  the random source on and appending each object; an exception in the body ends the loop.
  \<open>py_range n\<close> is \<open>range(n)\<close>, empty when \<open>n\<close> is not positive.
\<close>

fun for_append :: "(nat \<Rightarrow> rng \<Rightarrow> error + ('a \<times> rng)) \<Rightarrow> nat list \<Rightarrow> 'a list \<Rightarrow> rng
    \<Rightarrow> error + ('a list \<times> rng)" where
  "for_append body [] xs g = Inr (xs, g)"
| "for_append body (i # is) xs g =
     bindE (body i g) (\<lambda>(x, g'). for_append body is (xs @ [x]) g')"

definition py_range :: "int \<Rightarrow> nat list" where
  "py_range n = [0..<nat n]"

text \<open>
  A local variable that has the name of a field of a data class is written with a
  prime (\<open>mass'\<close> for \<open>mass\<close>).
\<close>

definition planet_body :: "nat \<Rightarrow> nat \<Rightarrow> nat \<Rightarrow> rng \<Rightarrow> error + (Planet \<times> rng)" where
  "planet_body gal_idx star_idx pidx g =
     (let code' = ''G'' @ py_str gal_idx @ ''-S'' @ py_str star_idx @ ''-P'' @ py_str pidx
      in case random_mass g of (mass', g1) \<Rightarrow>
         (case random_temperature g1 of (temp, g2) \<Rightarrow>
         (case random_bool_chance LIFE_PROBABILITY g2 of (has_life', g3) \<Rightarrow>
          bindE (random_minerals g3) (\<lambda>(minerals', g4).
          Inr (\<lparr> Planet.code = code', Planet.mass = mass', Planet.temperature = temp,
                 Planet.has_life = has_life', Planet.minerals = minerals' \<rparr>, g4)))))"

definition generate_planets :: "config \<Rightarrow> nat \<Rightarrow> nat \<Rightarrow> rng \<Rightarrow> error + (Planet list \<times> rng)" where
  "generate_planets cfg gal_idx star_idx g =
     bindE (randint (fst (PLANET_COUNT_RANGE cfg)) (snd (PLANET_COUNT_RANGE cfg)) g)
       (\<lambda>(num_planets, g1).
          for_append (planet_body gal_idx star_idx) (py_range num_planets) [] g1)"

definition spectral_types :: "string list" where
  "spectral_types = [''O'', ''B'', ''A'', ''F'', ''G'', ''K'', ''M'']"

definition star_body :: "config \<Rightarrow> nat \<Rightarrow> nat \<Rightarrow> rng \<Rightarrow> error + (Star \<times> rng)" where
  "star_body cfg gal_idx sidx g =
     (let code' = ''G'' @ py_str gal_idx @ ''-S'' @ py_str sidx
      in case random_mass g of (mass', g1) \<Rightarrow>
         (case random_temperature g1 of (temp, g2) \<Rightarrow>
          bindE (choice spectral_types g2) (\<lambda>(spec, g3).
          bindE (generate_planets cfg gal_idx sidx g3) (\<lambda>(planets', g4).
          Inr (\<lparr> Star.code = code', Star.mass = mass', Star.temperature = temp,
                 Star.spectral_type = spec, Star.planets = planets' \<rparr>, g4)))))"

definition generate_stars :: "config \<Rightarrow> nat \<Rightarrow> rng \<Rightarrow> error + (Star list \<times> rng)" where
  "generate_stars cfg gal_idx g =
     bindE (randint (fst (STAR_COUNT_RANGE cfg)) (snd (STAR_COUNT_RANGE cfg)) g)
       (\<lambda>(num_stars, g1).
          for_append (star_body cfg gal_idx) (py_range num_stars) [] g1)"

definition black_hole_body :: "nat \<Rightarrow> nat \<Rightarrow> rng \<Rightarrow> error + (BlackHole \<times> rng)" where
  "black_hole_body gal_idx bidx g =
     (let code' = ''G'' @ py_str gal_idx @ ''-BH'' @ py_str bidx
      in case random_mass g of (m, g1) \<Rightarrow>
         (let mass' = m * 10 ^ 3
          in case random_random g1 of (spin', g2) \<Rightarrow>
             Inr (\<lparr> BlackHole.code = code', BlackHole.mass = mass',
                    BlackHole.spin = spin' \<rparr>, g2)))"

definition generate_black_holes :: "config \<Rightarrow> nat \<Rightarrow> rng \<Rightarrow> error + (BlackHole list \<times> rng)" where
  "generate_black_holes cfg gal_idx g =
     bindE (randint (fst (BH_COUNT_RANGE cfg)) (snd (BH_COUNT_RANGE cfg)) g)
       (\<lambda>(num_bh, g1).
          for_append (black_hole_body gal_idx) (py_range num_bh) [] g1)"

definition nebula_body :: "nat \<Rightarrow> nat \<Rightarrow> rng \<Rightarrow> error + (Nebula \<times> rng)" where
  "nebula_body gal_idx nidx g =
     (let code' = ''G'' @ py_str gal_idx @ ''-N'' @ py_str nidx
      in case random_mass g of (m, g1) \<Rightarrow>
         (let mass' = m / 10
          in case random_temperature g1 of (t, g2) \<Rightarrow>
             (let temp = t / 10
              in bindE (random_minerals g2) (\<lambda>(comp, g3).
                 Inr (\<lparr> Nebula.code = code', Nebula.mass = mass',
                        Nebula.temperature = temp, Nebula.composition = comp \<rparr>, g3)))))"

definition generate_nebulae :: "config \<Rightarrow> nat \<Rightarrow> rng \<Rightarrow> error + (Nebula list \<times> rng)" where
  "generate_nebulae cfg gal_idx g =
     bindE (randint (fst (NEBULA_COUNT_RANGE cfg)) (snd (NEBULA_COUNT_RANGE cfg)) g)
       (\<lambda>(num_neb, g1).
          for_append (nebula_body gal_idx) (py_range num_neb) [] g1)"

definition asteroid_body :: "nat \<Rightarrow> nat \<Rightarrow> rng \<Rightarrow> error + (Asteroid \<times> rng)" where
  "asteroid_body gal_idx aidx g =
     (let code' = ''G'' @ py_str gal_idx @ ''-A'' @ py_str aidx
      in case random_mass g of (m, g1) \<Rightarrow>
         (let mass' = m / 10 ^ 3
          in bindE (random_minerals g1) (\<lambda>(comp, g2).
             Inr (\<lparr> Asteroid.code = code', Asteroid.mass = mass',
                    Asteroid.composition = comp \<rparr>, g2))))"

definition generate_asteroids :: "config \<Rightarrow> nat \<Rightarrow> rng \<Rightarrow> error + (Asteroid list \<times> rng)" where
  "generate_asteroids cfg gal_idx g =
     bindE (randint (fst (ASTEROID_COUNT_RANGE cfg)) (snd (ASTEROID_COUNT_RANGE cfg)) g)
       (\<lambda>(num_ast, g1).
          for_append (asteroid_body gal_idx) (py_range num_ast) [] g1)"

definition comet_body :: "nat \<Rightarrow> nat \<Rightarrow> rng \<Rightarrow> error + (Comet \<times> rng)" where
  "comet_body gal_idx cidx g =
     (let code' = ''G'' @ py_str gal_idx @ ''-C'' @ py_str cidx
      in case random_mass g of (m, g1) \<Rightarrow>
         (let mass' = m / 10 ^ 6
          in case uniform (10 ^ 3) (10 ^ 5) g1 of (tail, g2) \<Rightarrow>
             Inr (\<lparr> Comet.code = code', Comet.mass = mass',
                    Comet.tail_length_km = tail \<rparr>, g2)))"

definition generate_comets :: "config \<Rightarrow> nat \<Rightarrow> rng \<Rightarrow> error + (Comet list \<times> rng)" where
  "generate_comets cfg gal_idx g =
     bindE (randint (fst (COMET_COUNT_RANGE cfg)) (snd (COMET_COUNT_RANGE cfg)) g)
       (\<lambda>(num_com, g1).
          for_append (comet_body gal_idx) (py_range num_com) [] g1)"

definition galaxy_body :: "config \<Rightarrow> nat \<Rightarrow> rng \<Rightarrow> error + (Galaxy \<times> rng)" where
  "galaxy_body cfg gal_idx g =
     (let code' = ''G'' @ py_str gal_idx
      in bindE (generate_stars cfg gal_idx g) (\<lambda>(stars', g1).
         bindE (generate_black_holes cfg gal_idx g1) (\<lambda>(black_holes', g2).
         bindE (generate_nebulae cfg gal_idx g2) (\<lambda>(nebulae', g3).
         bindE (generate_asteroids cfg gal_idx g3) (\<lambda>(asteroids', g4).
         bindE (generate_comets cfg gal_idx g4) (\<lambda>(comets', g5).
         Inr (\<lparr> Galaxy.code = code', Galaxy.stars = stars',
                Galaxy.black_holes = black_holes', Galaxy.nebulae = nebulae',
                Galaxy.asteroids = asteroids', Galaxy.comets = comets' \<rparr>, g5)))))))"

definition generate_galaxies :: "config \<Rightarrow> rng \<Rightarrow> error + (Galaxy list \<times> rng)" where
  "generate_galaxies cfg g =
     for_append (galaxy_body cfg) (py_range (NUM_GALAXIES cfg)) [] g"

section \<open>Conversion to dictionaries\<close>

text \<open>
  The values \<open>to_dict\<close> builds and \<open>pickle\<close> receives: strings, floats, booleans,
  lists and dictionaries with string keys, a dictionary being the list of its items in
  insertion order.
\<close>

datatype pyobj = PStr string | PFloat pyfloat | PBool bool
  | PList "pyobj list" | PDict "(string \<times> pyobj) list"

definition float_dict :: "(string \<times> pyfloat) list \<Rightarrow> pyobj" where
  "float_dict d = PDict (map (\<lambda>(k, v). (k, PFloat v)) d)"

definition Planet_to_dict :: "Planet \<Rightarrow> pyobj" where
  "Planet_to_dict self = PDict
     [(''code'', PStr (Planet.code self)),
      (''mass'', PFloat (Planet.mass self)),
      (''temperature'', PFloat (Planet.temperature self)),
      (''has_life'', PBool (Planet.has_life self)),
      (''minerals'', float_dict (Planet.minerals self))]"

definition Star_to_dict :: "Star \<Rightarrow> pyobj" where
  "Star_to_dict self = PDict
     [(''code'', PStr (Star.code self)),
      (''mass'', PFloat (Star.mass self)),
      (''temperature'', PFloat (Star.temperature self)),
      (''spectral_type'', PStr (Star.spectral_type self)),
      (''planets'', PList (map Planet_to_dict (Star.planets self)))]"

definition BlackHole_to_dict :: "BlackHole \<Rightarrow> pyobj" where
  "BlackHole_to_dict self = PDict
     [(''code'', PStr (BlackHole.code self)),
      (''mass'', PFloat (BlackHole.mass self)),
      (''spin'', PFloat (BlackHole.spin self))]"

definition Nebula_to_dict :: "Nebula \<Rightarrow> pyobj" where
  "Nebula_to_dict self = PDict
     [(''code'', PStr (Nebula.code self)),
      (''mass'', PFloat (Nebula.mass self)),
      (''temperature'', PFloat (Nebula.temperature self)),
      (''composition'', float_dict (Nebula.composition self))]"

definition Asteroid_to_dict :: "Asteroid \<Rightarrow> pyobj" where
  "Asteroid_to_dict self = PDict
     [(''code'', PStr (Asteroid.code self)),
      (''mass'', PFloat (Asteroid.mass self)),
      (''composition'', float_dict (Asteroid.composition self))]"

definition Comet_to_dict :: "Comet \<Rightarrow> pyobj" where
  "Comet_to_dict self = PDict
     [(''code'', PStr (Comet.code self)),
      (''mass'', PFloat (Comet.mass self)),
      (''tail_length_km'', PFloat (Comet.tail_length_km self))]"

definition Galaxy_to_dict :: "Galaxy \<Rightarrow> pyobj" where
  "Galaxy_to_dict self = PDict
     [(''code'', PStr (Galaxy.code self)),
      (''stars'', PList (map Star_to_dict (Galaxy.stars self))),
      (''black_holes'', PList (map BlackHole_to_dict (Galaxy.black_holes self))),
      (''nebulae'', PList (map Nebula_to_dict (Galaxy.nebulae self))),
      (''asteroids'', PList (map Asteroid_to_dict (Galaxy.asteroids self))),
      (''comets'', PList (map Comet_to_dict (Galaxy.comets self)))]"

definition Universe_to_dict :: "Universe \<Rightarrow> pyobj" where
  "Universe_to_dict self = PDict
     [(''galaxies'', PList (map Galaxy_to_dict (Universe.galaxies self)))]"

section \<open>Files\<close>

text \<open>
  A binary file opened for writing: the bytes the path holds, the offset of the next write
  and whether the object is closed. \<open>open(filename, 'wb')\<close> truncates, so a file starts
  empty. A write beyond the end leaves a hole that reads as zero bytes; a write inside the
  file replaces the bytes it covers. Any operation on a closed file raises ValueError.
  \<open>seek\<close> raises OSError for a negative offset, ValueError for an offset that does not
  fit the signed 64-bit offset type (\<open>2^63\<close> or more), and OSError for an offset beyond
  what the file system of the file supports: that limit depends on the file system (about
  \<open>2^44\<close> on ext4) and is the field \<open>seek_limit\<close>, which \<open>open\<close> takes as a
  parameter. Writes do not fail: a full disk or an unwritable path is not modelled.
  Buffering is not modelled either: every method of the writer ends in \<open>flush()\<close>.
\<close>

record pyfile =
  content :: "byte list"
  offset :: nat
  is_closed :: bool
  seek_limit :: nat

definition open_wb :: "nat \<Rightarrow> pyfile" where
  "open_wb maxoff = \<lparr> content = [], offset = 0, is_closed = False, seek_limit = maxoff \<rparr>"

definition file_seek :: "int \<Rightarrow> pyfile \<Rightarrow> error + pyfile" where
  "file_seek n f =
     (if is_closed f then Inl ValueError
      else if n < 0 then Inl OSError
      else if 2 ^ 63 \<le> n then Inl ValueError
      else if int (seek_limit f) < n then Inl OSError
      else Inr (f\<lparr> offset := nat n \<rparr>))"

definition file_write :: "byte list \<Rightarrow> pyfile \<Rightarrow> error + pyfile" where
  "file_write bs f =
     (if is_closed f then Inl ValueError
      else if bs = [] then Inr f
      else Inr (f\<lparr> content := take (offset f) (content f)
                        @ replicate (offset f - length (content f)) 0
                        @ bs
                        @ drop (offset f + length bs) (content f),
                    offset := offset f + length bs \<rparr>))"

definition file_flush :: "pyfile \<Rightarrow> error + pyfile" where
  "file_flush f = (if is_closed f then Inl ValueError else Inr f)"

definition file_close :: "pyfile \<Rightarrow> pyfile" where
  "file_close f = f\<lparr> is_closed := True \<rparr>"

text \<open>
  \<open>struct.pack('<Q', n)\<close>: the eight bytes of \<open>n\<close>, least significant first;
  \<open>struct.error\<close> when \<open>n\<close> does not fit 64 bits. \<open>le_value\<close> reads such bytes back.
\<close>

fun le_bytes :: "nat \<Rightarrow> nat \<Rightarrow> byte list" where
  "le_bytes 0 n = []"
| "le_bytes (Suc k) n = of_nat (n mod 256) # le_bytes k (n div 256)"

definition pack_Q :: "nat \<Rightarrow> error + byte list" where
  "pack_Q n = (if n < 2 ^ 64 then Inr (le_bytes 8 n) else Inl StructError)"

fun le_value :: "byte list \<Rightarrow> nat" where
  "le_value [] = 0"
| "le_value (b # bs) = unat b + 256 * le_value bs"

section \<open>File writing logic\<close>

text \<open>
  A method of the writer returns its outcome, returned or raised, with the writer as the
  call left it: the file keeps what was written before an exception.
  \<open>pickle.dumps(_, protocol=pickle.HIGHEST_PROTOCOL)\<close> is the parameter \<open>dumps\<close>, and
  \<open>maxoff\<close> is the seek limit of the file system on which \<open>__enter__\<close> opens the file.
\<close>

datatype outcome = Returned | Raised error

record UniverseWriter =
  filename :: string
  target_size :: int
  file' :: "pyfile option"

definition UniverseWriter_init :: "string \<Rightarrow> int \<Rightarrow> UniverseWriter" where
  "UniverseWriter_init filename' target_size' =
     \<lparr> filename = filename', target_size = target_size', file' = None \<rparr>"

definition UniverseWriter_enter :: "nat \<Rightarrow> UniverseWriter \<Rightarrow> UniverseWriter" where
  "UniverseWriter_enter maxoff self = self\<lparr> file' := Some (open_wb maxoff) \<rparr>"

definition pad_file :: "UniverseWriter \<Rightarrow> outcome \<times> UniverseWriter" where
  "pad_file self =
     (case file' self of
        None \<Rightarrow> (Raised AttributeError, self)
      | Some f \<Rightarrow>
          (case file_seek (target_size self - 1) f of
             Inl e \<Rightarrow> (Raised e, self)
           | Inr f1 \<Rightarrow>
               (case file_write [0] f1 of
                  Inl e \<Rightarrow> (Raised e, self\<lparr> file' := Some f1 \<rparr>)
                | Inr f2 \<Rightarrow>
                    (case file_flush f2 of
                       Inl e \<Rightarrow> (Raised e, self\<lparr> file' := Some f2 \<rparr>)
                     | Inr f3 \<Rightarrow> (Returned, self\<lparr> file' := Some f3 \<rparr>)))))"

definition write_universe :: "(pyobj \<Rightarrow> error + byte list) \<Rightarrow> Universe \<Rightarrow> UniverseWriter
    \<Rightarrow> outcome \<times> UniverseWriter" where
  "write_universe dumps universe self =
     (let uni_dict = Universe_to_dict universe
      in case dumps uni_dict of
           Inl e \<Rightarrow> (Raised e, self)
         | Inr data \<Rightarrow>
             (let length' = length data
              in case file' self of
                   None \<Rightarrow> (Raised AttributeError, self)
                 | Some f \<Rightarrow>
                     (case pack_Q length' of
                        Inl e \<Rightarrow> (Raised e, self)
                      | Inr header \<Rightarrow>
                          (case file_write header f of
                             Inl e \<Rightarrow> (Raised e, self)
                           | Inr f1 \<Rightarrow>
                               (case file_write data f1 of
                                  Inl e \<Rightarrow> (Raised e, self\<lparr> file' := Some f1 \<rparr>)
                                | Inr f2 \<Rightarrow>
                                    (case file_flush f2 of
                                       Inl e \<Rightarrow> (Raised e, self\<lparr> file' := Some f2 \<rparr>)
                                     | Inr f3 \<Rightarrow> (Returned, self\<lparr> file' := Some f3 \<rparr>)))))))"

text \<open>
  \<open>__exit__\<close> pads whatever the body did, then closes the file. It returns None, so an
  exception of the body is raised again after it; an exception of \<open>__exit__\<close> itself
  replaces the body's.
\<close>

definition UniverseWriter_exit :: "UniverseWriter \<Rightarrow> outcome \<times> UniverseWriter" where
  "UniverseWriter_exit self =
     (case pad_file self of
        (Raised e, self1) \<Rightarrow> (Raised e, self1)
      | (Returned, self1) \<Rightarrow>
          (case file' self1 of
             None \<Rightarrow> (Returned, self1)
           | Some f \<Rightarrow> (Returned, self1\<lparr> file' := Some (file_close f) \<rparr>)))"

text \<open>
  \<open>with UniverseWriter(filename, target_size) as writer: writer.write_universe(universe)\<close>
\<close>

definition with_writer :: "nat \<Rightarrow> (pyobj \<Rightarrow> error + byte list) \<Rightarrow> string \<Rightarrow> int \<Rightarrow> Universe
    \<Rightarrow> outcome \<times> UniverseWriter" where
  "with_writer maxoff dumps filename' target_size' universe =
     (let writer = UniverseWriter_enter maxoff (UniverseWriter_init filename' target_size')
      in case write_universe dumps universe writer of
           (body, writer1) \<Rightarrow>
             (case UniverseWriter_exit writer1 of
                (Raised e, writer2) \<Rightarrow> (Raised e, writer2)
              | (Returned, writer2) \<Rightarrow> (body, writer2)))"

section \<open>Main execution\<close>


definition UNIVERSE_FILE :: string where
  "UNIVERSE_FILE = ''universe.bin''"


section \<open>Vocabulary of the statements\<close>

subsection \<open>Codes by position\<close>

text \<open>
  The code formats of the module docstring, as functions of the position indices alone.
\<close>

definition galaxy_code :: "nat \<Rightarrow> string" where
  "galaxy_code gal_idx = ''G'' @ py_str gal_idx"

definition star_code :: "nat \<Rightarrow> nat \<Rightarrow> string" where
  "star_code gal_idx star_idx = ''G'' @ py_str gal_idx @ ''-S'' @ py_str star_idx"

definition planet_code :: "nat \<Rightarrow> nat \<Rightarrow> nat \<Rightarrow> string" where
  "planet_code gal_idx star_idx planet_idx =
     ''G'' @ py_str gal_idx @ ''-S'' @ py_str star_idx @ ''-P'' @ py_str planet_idx"

definition black_hole_code :: "nat \<Rightarrow> nat \<Rightarrow> string" where
  "black_hole_code gal_idx bh_idx = ''G'' @ py_str gal_idx @ ''-BH'' @ py_str bh_idx"

definition nebula_code :: "nat \<Rightarrow> nat \<Rightarrow> string" where
  "nebula_code gal_idx nebula_idx = ''G'' @ py_str gal_idx @ ''-N'' @ py_str nebula_idx"

definition asteroid_code :: "nat \<Rightarrow> nat \<Rightarrow> string" where
  "asteroid_code gal_idx asteroid_idx = ''G'' @ py_str gal_idx @ ''-A'' @ py_str asteroid_idx"

definition comet_code :: "nat \<Rightarrow> nat \<Rightarrow> string" where
  "comet_code gal_idx comet_idx = ''G'' @ py_str gal_idx @ ''-C'' @ py_str comet_idx"

text \<open>
  The planets of star \<open>j\<close> of galaxy \<open>i\<close> carry the codes of their positions, all
  different.
\<close>

definition star_scope_ok :: "nat \<Rightarrow> nat \<Rightarrow> Star \<Rightarrow> bool" where
  "star_scope_ok i j s \<longleftrightarrow>
     map Planet.code (planets s) = map (planet_code i j) [0..<length (planets s)] \<and>
     distinct (map Planet.code (planets s))"

text \<open>
  The objects of galaxy \<open>i\<close> carry the codes of their positions, no two objects of the
  galaxy share a code, whatever their kinds, and every star is in order.
\<close>

definition galaxy_scope_ok :: "nat \<Rightarrow> Galaxy \<Rightarrow> bool" where
  "galaxy_scope_ok i G \<longleftrightarrow>
     map Star.code (stars G) = map (star_code i) [0..<length (stars G)] \<and>
     map BlackHole.code (black_holes G) = map (black_hole_code i) [0..<length (black_holes G)] \<and>
     map Nebula.code (nebulae G) = map (nebula_code i) [0..<length (nebulae G)] \<and>
     map Asteroid.code (asteroids G) = map (asteroid_code i) [0..<length (asteroids G)] \<and>
     map Comet.code (comets G) = map (comet_code i) [0..<length (comets G)] \<and>
     distinct (map Star.code (stars G) @ map BlackHole.code (black_holes G)
               @ map Nebula.code (nebulae G) @ map Asteroid.code (asteroids G)
               @ map Comet.code (comets G)) \<and>
     (\<forall>j<length (stars G). star_scope_ok i j (stars G ! j))"

subsection \<open>Concrete inputs\<close>

text \<open>One galaxy with two stars of one planet each and one object of every other kind.\<close>

definition small_config :: config where
  "small_config = \<lparr> NUM_GALAXIES = 1, STAR_COUNT_RANGE = (2, 2),
     PLANET_COUNT_RANGE = (1, 1), BH_COUNT_RANGE = (1, 1), NEBULA_COUNT_RANGE = (1, 1),
     ASTEROID_COUNT_RANGE = (1, 1), COMET_COUNT_RANGE = (1, 1) \<rparr>"

subsection \<open>The writer\<close>

text \<open>
  What \<open>write_universe\<close> writes for a payload (the length prefix, then the payload),
  the writer inside the \<open>with\<close> block before the body runs, what \<open>pad_file\<close> makes
  of a file's bytes, and the bytes of the file a call has left.
\<close>

definition written :: "byte list \<Rightarrow> byte list" where
  "written data = le_bytes 8 (length data) @ data"

definition opened :: "nat \<Rightarrow> string \<Rightarrow> int \<Rightarrow> UniverseWriter" where
  "opened maxoff fn t = UniverseWriter_enter maxoff (UniverseWriter_init fn t)"

text \<open>
  The target sizes for which the \<open>seek\<close> of \<open>pad_file\<close> succeeds on a file system
  with seek limit \<open>maxoff\<close>: the offset \<open>target_size - 1\<close> is not negative, fits the
  offset type and is within the limit. \<open>ext4_limit\<close> is the limit of an ext4 file
  system with 4 KiB blocks, 16 TiB less one block.
\<close>

definition seekable :: "nat \<Rightarrow> int \<Rightarrow> bool" where
  "seekable maxoff t \<longleftrightarrow> 1 \<le> t \<and> t \<le> 2 ^ 63 \<and> t - 1 \<le> int maxoff"

definition ext4_limit :: nat where
  "ext4_limit = 2 ^ 44 - 4096"

text \<open>
  The exception of \<open>seek\<close> on an open file for a target size that is not seekable:
  ValueError when \<open>target_size - 1\<close> does not fit the offset type, OSError when it is
  negative or beyond the limit of the file system.
\<close>

definition seek_error :: "int \<Rightarrow> error" where
  "seek_error t = (if 2 ^ 63 < t then ValueError else OSError)"

definition padded :: "int \<Rightarrow> byte list \<Rightarrow> byte list" where
  "padded t bs = take (nat (t - 1)) bs @ replicate (nat (t - 1) - length bs) 0 @ [0]
                 @ drop (nat (t - 1) + 1) bs"

definition final_content :: "outcome \<times> UniverseWriter \<Rightarrow> byte list" where
  "final_content r = (case file' (snd r) of None \<Rightarrow> [] | Some f \<Rightarrow> content f)"


text \<open>
  The empty Universe and the 28 bytes that
  \<open>pickle.dumps({'galaxies': []}, protocol=5)\<close> returns for it: PROTO 5, a FRAME of 17
  bytes, the dictionary, and the STOP opcode \<open>.\<close> (46) last. \<open>dumps_empty\<close> pickles this
  one value and \<open>loads_empty\<close> reads it back.
\<close>

definition empty_universe :: Universe where
  "empty_universe = \<lparr> galaxies = [] \<rparr>"

definition pickle_empty_universe :: "byte list" where
  "pickle_empty_universe =
     [128, 5, 149, 17, 0, 0, 0, 0, 0, 0, 0, 125, 148, 140, 8,
      103, 97, 108, 97, 120, 105, 101, 115, 148, 93, 148, 115, 46]"

definition dumps_empty :: "pyobj \<Rightarrow> error + byte list" where
  "dumps_empty d =
     (if d = Universe_to_dict empty_universe then Inr pickle_empty_universe
      else Inl PicklingError)"

definition loads_empty :: "byte list \<Rightarrow> pyobj option" where
  "loads_empty bs =
     (if bs = pickle_empty_universe then Some (Universe_to_dict empty_universe) else None)"


subsection \<open>Reading the file back\<close>

text \<open>
  Modelled from the spec: the inverse codec. The repository only writes; no code under
  its source reads \<open>universe.bin\<close> or turns a dictionary back into objects. The spec
  asks that the first 8 bytes and the next \<open>length\<close> bytes reconstruct the Universe
  when decoded with the inverse codec: \<open>read_universe\<close> reads the little-endian length,
  takes that many bytes, applies \<open>loads\<close> (the inverse of \<open>dumps\<close>, a parameter) and
  rebuilds the objects from the dictionaries, key by key.
\<close>

definition as_str :: "pyobj \<Rightarrow> string option" where
  "as_str x = (case x of PStr s \<Rightarrow> Some s | _ \<Rightarrow> None)"

definition as_float :: "pyobj \<Rightarrow> pyfloat option" where
  "as_float x = (case x of PFloat v \<Rightarrow> Some v | _ \<Rightarrow> None)"

definition as_bool :: "pyobj \<Rightarrow> bool option" where
  "as_bool x = (case x of PBool b \<Rightarrow> Some b | _ \<Rightarrow> None)"

definition as_dict :: "pyobj \<Rightarrow> (string \<times> pyobj) list option" where
  "as_dict x = (case x of PDict kvs \<Rightarrow> Some kvs | _ \<Rightarrow> None)"

definition list_of :: "(pyobj \<Rightarrow> 'a option) \<Rightarrow> pyobj \<Rightarrow> 'a list option" where
  "list_of conv x = (case x of PList xs \<Rightarrow> those (map conv xs) | _ \<Rightarrow> None)"

definition float_dict_of :: "pyobj \<Rightarrow> (string \<times> pyfloat) list option" where
  "float_dict_of x =
     Option.bind (as_dict x)
       (\<lambda>kvs. those (map (\<lambda>(k, v). map_option (Pair k) (as_float v)) kvs))"

definition field :: "(string \<times> pyobj) list \<Rightarrow> string \<Rightarrow> (pyobj \<Rightarrow> 'a option) \<Rightarrow> 'a option" where
  "field kvs k conv = Option.bind (map_of kvs k) conv"

definition Planet_of_dict :: "pyobj \<Rightarrow> Planet option" where
  "Planet_of_dict x =
     Option.bind (as_dict x) (\<lambda>kvs.
     Option.bind (field kvs ''code'' as_str) (\<lambda>c.
     Option.bind (field kvs ''mass'' as_float) (\<lambda>m.
     Option.bind (field kvs ''temperature'' as_float) (\<lambda>t.
     Option.bind (field kvs ''has_life'' as_bool) (\<lambda>l.
     Option.bind (field kvs ''minerals'' float_dict_of) (\<lambda>ms.
     Some \<lparr> Planet.code = c, Planet.mass = m, Planet.temperature = t,
            Planet.has_life = l, Planet.minerals = ms \<rparr>))))))"

definition Star_of_dict :: "pyobj \<Rightarrow> Star option" where
  "Star_of_dict x =
     Option.bind (as_dict x) (\<lambda>kvs.
     Option.bind (field kvs ''code'' as_str) (\<lambda>c.
     Option.bind (field kvs ''mass'' as_float) (\<lambda>m.
     Option.bind (field kvs ''temperature'' as_float) (\<lambda>t.
     Option.bind (field kvs ''spectral_type'' as_str) (\<lambda>s.
     Option.bind (field kvs ''planets'' (list_of Planet_of_dict)) (\<lambda>ps.
     Some \<lparr> Star.code = c, Star.mass = m, Star.temperature = t,
            Star.spectral_type = s, Star.planets = ps \<rparr>))))))"

definition BlackHole_of_dict :: "pyobj \<Rightarrow> BlackHole option" where
  "BlackHole_of_dict x =
     Option.bind (as_dict x) (\<lambda>kvs.
     Option.bind (field kvs ''code'' as_str) (\<lambda>c.
     Option.bind (field kvs ''mass'' as_float) (\<lambda>m.
     Option.bind (field kvs ''spin'' as_float) (\<lambda>s.
     Some \<lparr> BlackHole.code = c, BlackHole.mass = m, BlackHole.spin = s \<rparr>))))"

definition Nebula_of_dict :: "pyobj \<Rightarrow> Nebula option" where
  "Nebula_of_dict x =
     Option.bind (as_dict x) (\<lambda>kvs.
     Option.bind (field kvs ''code'' as_str) (\<lambda>c.
     Option.bind (field kvs ''mass'' as_float) (\<lambda>m.
     Option.bind (field kvs ''temperature'' as_float) (\<lambda>t.
     Option.bind (field kvs ''composition'' float_dict_of) (\<lambda>cs.
     Some \<lparr> Nebula.code = c, Nebula.mass = m, Nebula.temperature = t,
            Nebula.composition = cs \<rparr>)))))"

definition Asteroid_of_dict :: "pyobj \<Rightarrow> Asteroid option" where
  "Asteroid_of_dict x =
     Option.bind (as_dict x) (\<lambda>kvs.
     Option.bind (field kvs ''code'' as_str) (\<lambda>c.
     Option.bind (field kvs ''mass'' as_float) (\<lambda>m.
     Option.bind (field kvs ''composition'' float_dict_of) (\<lambda>cs.
     Some \<lparr> Asteroid.code = c, Asteroid.mass = m, Asteroid.composition = cs \<rparr>))))"

definition Comet_of_dict :: "pyobj \<Rightarrow> Comet option" where
  "Comet_of_dict x =
     Option.bind (as_dict x) (\<lambda>kvs.
     Option.bind (field kvs ''code'' as_str) (\<lambda>c.
     Option.bind (field kvs ''mass'' as_float) (\<lambda>m.
     Option.bind (field kvs ''tail_length_km'' as_float) (\<lambda>l.
     Some \<lparr> Comet.code = c, Comet.mass = m, Comet.tail_length_km = l \<rparr>))))"

definition Galaxy_of_dict :: "pyobj \<Rightarrow> Galaxy option" where
  "Galaxy_of_dict x =
     Option.bind (as_dict x) (\<lambda>kvs.
     Option.bind (field kvs ''code'' as_str) (\<lambda>c.
     Option.bind (field kvs ''stars'' (list_of Star_of_dict)) (\<lambda>ss.
     Option.bind (field kvs ''black_holes'' (list_of BlackHole_of_dict)) (\<lambda>bs.
     Option.bind (field kvs ''nebulae'' (list_of Nebula_of_dict)) (\<lambda>ns.
     Option.bind (field kvs ''asteroids'' (list_of Asteroid_of_dict)) (\<lambda>as.
     Option.bind (field kvs ''comets'' (list_of Comet_of_dict)) (\<lambda>cs.
     Some \<lparr> Galaxy.code = c, Galaxy.stars = ss, Galaxy.black_holes = bs,
            Galaxy.nebulae = ns, Galaxy.asteroids = as, Galaxy.comets = cs \<rparr>)))))))"

definition Universe_of_dict :: "pyobj \<Rightarrow> Universe option" where
  "Universe_of_dict x =
     Option.bind (as_dict x) (\<lambda>kvs.
     Option.bind (field kvs ''galaxies'' (list_of Galaxy_of_dict)) (\<lambda>gs.
     Some \<lparr> galaxies = gs \<rparr>))"

definition read_universe :: "(byte list \<Rightarrow> pyobj option) \<Rightarrow> byte list \<Rightarrow> Universe option" where
  "read_universe loads bs =
     (if length bs < 8 then None
      else let length' = le_value (take 8 bs)
           in if length bs < 8 + length' then None
              else Option.bind (loads (take length' (drop 8 bs))) Universe_of_dict)"

subsection \<open>Configurations\<close>

text \<open>A count range is malformed when its minimum exceeds its maximum.\<close>

definition malformed :: "int \<times> int \<Rightarrow> bool" where
  "malformed r \<longleftrightarrow> snd r < fst r"


text \<open>All count ranges \<open>(0, 0)\<close> and one galaxy.\<close>

definition zero_config :: config where
  "zero_config = \<lparr> NUM_GALAXIES = 1, STAR_COUNT_RANGE = (0, 0),
     PLANET_COUNT_RANGE = (0, 0), BH_COUNT_RANGE = (0, 0), NEBULA_COUNT_RANGE = (0, 0),
     ASTEROID_COUNT_RANGE = (0, 0), COMET_COUNT_RANGE = (0, 0) \<rparr>"

text \<open>One galaxy with one asteroid and nothing else: every range is well-formed.\<close>

definition asteroid_config :: config where
  "asteroid_config = \<lparr> NUM_GALAXIES = 1, STAR_COUNT_RANGE = (0, 0),
     PLANET_COUNT_RANGE = (0, 0), BH_COUNT_RANGE = (0, 0), NEBULA_COUNT_RANGE = (0, 0),
     ASTEROID_COUNT_RANGE = (1, 1), COMET_COUNT_RANGE = (0, 0) \<rparr>"




definition empty_galaxy :: "nat \<Rightarrow> Galaxy" where
  "empty_galaxy gal_idx = \<lparr> Galaxy.code = ''G'' @ py_str gal_idx, Galaxy.stars = [],
     Galaxy.black_holes = [], Galaxy.nebulae = [], Galaxy.asteroids = [],
     Galaxy.comets = [] \<rparr>"


section \<open>Lemmas on the model\<close>

subsection \<open>Decimal rendering\<close>

lemma py_str_digit: "n < 10 \<Longrightarrow> py_str n = [digit_char n]"
  by (subst py_str.simps) simp

lemma py_str_step: "\<not> n < 10 \<Longrightarrow> py_str n = py_str (n div 10) @ [digit_char (n mod 10)]"
  by (subst py_str.simps) simp

lemma py_str_nonempty: "py_str n \<noteq> []"
  by (subst py_str.simps) simp

lemma digit_char_inj: "a < 10 \<Longrightarrow> b < 10 \<Longrightarrow> digit_char a = digit_char b \<Longrightarrow> a = b"
proof -
  assume a: "a < 10" and b: "b < 10" and e: "digit_char a = digit_char b"
  have "distinct ''0123456789''" by simp
  moreover have "length ''0123456789'' = 10" by simp
  ultimately show "a = b"
    using a b e unfolding digit_char_def by (metis nth_eq_iff_index_eq)
qed

lemma py_str_inj: "py_str m = py_str n \<Longrightarrow> m = n"
proof (induction m arbitrary: n rule: less_induct)
  case (less m)
  show ?case
  proof (cases "m < 10")
    case True
    note m = this
    show ?thesis
    proof (cases "n < 10")
      case True
      with m less.prems show ?thesis
        by (simp add: py_str_digit digit_char_inj)
    next
      case False
      with m less.prems py_str_nonempty [of "n div 10"] show ?thesis
        by (simp add: py_str_digit py_str_step)
    qed
  next
    case False
    note m = this
    show ?thesis
    proof (cases "n < 10")
      case True
      with m less.prems py_str_nonempty [of "m div 10"] show ?thesis
        by (simp add: py_str_digit py_str_step)
    next
      case False
      with m less.prems have e: "py_str (m div 10) = py_str (n div 10)"
        and d: "digit_char (m mod 10) = digit_char (n mod 10)"
        by (simp_all add: py_str_step)
      from m have "m div 10 < m" by simp
      from less.IH [OF this e] have "m div 10 = n div 10" .
      moreover from d have "m mod 10 = n mod 10"
        by (rule digit_char_inj [rotated 2]) simp_all
      ultimately show ?thesis
        by (metis div_mult_mod_eq)
    qed
  qed
qed

subsection \<open>Errors and loops\<close>

lemma bindE_Inr: "bindE r f = Inr y \<longleftrightarrow> (\<exists>x. r = Inr x \<and> f x = Inr y)"
  by (cases r) (simp_all add: bindE_def)


lemma for_append_all2:
  assumes body: "\<And>i h x h'. body i h = Inr (x, h') \<Longrightarrow> P i x"
  shows "for_append body is xs g = Inr (ys, g') \<Longrightarrow> \<exists>zs. ys = xs @ zs \<and> list_all2 P is zs"
proof (induction "is" arbitrary: xs g)
  case Nil
  then show ?case by simp
next
  case (Cons i "is")
  from Cons.prems obtain x h where b: "body i g = Inr (x, h)"
    and r: "for_append body is (xs @ [x]) h = Inr (ys, g')"
    by (auto simp: bindE_Inr)
  from Cons.IH [OF r] obtain zs where "ys = (xs @ [x]) @ zs" "list_all2 P is zs"
    by blast
  with body [OF b] show ?case by simp
qed

lemma for_range_all2:
  assumes body: "\<And>i h x h'. body i h = Inr (x, h') \<Longrightarrow> P i x"
    and run: "for_append body (py_range n) [] g = Inr (ys, g')"
  shows "list_all2 P [0..<length ys] ys"
proof -
  from for_append_all2 [of body P, OF body run] have a: "list_all2 P (py_range n) ys"
    by simp
  then have "length ys = nat n"
    by (simp add: list_all2_lengthD [symmetric] py_range_def)
  with a show ?thesis by (simp add: py_range_def)
qed

lemma all2_codes:
  "list_all2 (\<lambda>i x. c x = f i) is ys \<Longrightarrow> map c ys = map f is"
  by (induction "is" ys rule: list_all2_induct) simp_all

lemma all2_upt_nth:
  "list_all2 P [0..<length ys] ys \<Longrightarrow> j < length ys \<Longrightarrow> P j (ys ! j)"
  by (drule list_all2_nthD2 [where p = j]) simp_all

lemma distinct_codes:
  "(\<And>a b. f a = f b \<Longrightarrow> a = b) \<Longrightarrow> distinct (map f [0..<n])"
  by (auto simp: distinct_map intro!: inj_onI)

subsection \<open>Codes\<close>

lemma range_codes:
  assumes body: "\<And>k h x h'. body k h = Inr (x, h') \<Longrightarrow> c x = f k"
    and run: "bindE (randint lo hi g) (\<lambda>(n, g1). for_append body (py_range n) [] g1) = Inr (ys, g')"
  shows "map c ys = map f [0..<length ys]"
proof -
  from run obtain n g1 where "for_append body (py_range n) [] g1 = Inr (ys, g')"
    by (auto simp: bindE_Inr)
  from for_range_all2 [of body "\<lambda>k x. c x = f k", OF body this]
  show ?thesis by (rule all2_codes)
qed

lemma planet_body_code:
  "planet_body i j k g = Inr (p, g') \<Longrightarrow> Planet.code p = planet_code i j k"
  by (auto simp: planet_body_def planet_code_def Let_def bindE_Inr split: prod.splits)

lemma generate_planets_codes:
  assumes "generate_planets cfg i j g = Inr (ps, g')"
  shows "map Planet.code ps = map (planet_code i j) [0..<length ps]"
  using assms unfolding generate_planets_def
  by (rule range_codes [rotated]) (rule planet_body_code)

lemma planet_codes_distinct: "distinct (map (planet_code i j) [0..<n])"
  by (rule distinct_codes) (simp add: planet_code_def py_str_inj)

lemma star_body_code:
  "star_body cfg i j g = Inr (s, g') \<Longrightarrow> Star.code s = star_code i j"
  by (auto simp: star_body_def star_code_def Let_def bindE_Inr split: prod.splits)

lemma star_body_scope:
  "star_body cfg i j g = Inr (s, g') \<Longrightarrow> star_scope_ok i j s"
  by (auto simp: star_body_def star_scope_ok_def Let_def bindE_Inr planet_codes_distinct
      split: prod.splits dest!: generate_planets_codes)

lemma generate_stars_codes:
  assumes "generate_stars cfg i g = Inr (ss, g')"
  shows "map Star.code ss = map (star_code i) [0..<length ss]"
  using assms unfolding generate_stars_def
  by (rule range_codes [rotated]) (rule star_body_code)

lemma generate_stars_scope:
  assumes "generate_stars cfg i g = Inr (ss, g')" and "j < length ss"
  shows "star_scope_ok i j (ss ! j)"
proof -
  from assms(1) obtain n g1 where "for_append (star_body cfg i) (py_range n) [] g1 = Inr (ss, g')"
    by (auto simp: generate_stars_def bindE_Inr)
  then have "list_all2 (star_scope_ok i) [0..<length ss] ss"
    by (rule for_range_all2 [rotated]) (rule star_body_scope)
  then show ?thesis using assms(2) by (rule all2_upt_nth)
qed

lemma black_hole_body_code:
  "black_hole_body i k g = Inr (x, g') \<Longrightarrow> BlackHole.code x = black_hole_code i k"
  by (auto simp: black_hole_body_def black_hole_code_def Let_def split: prod.splits)

lemma generate_black_holes_codes:
  assumes "generate_black_holes cfg i g = Inr (xs, g')"
  shows "map BlackHole.code xs = map (black_hole_code i) [0..<length xs]"
  using assms unfolding generate_black_holes_def
  by (rule range_codes [rotated]) (rule black_hole_body_code)

lemma nebula_body_code:
  "nebula_body i k g = Inr (x, g') \<Longrightarrow> Nebula.code x = nebula_code i k"
  by (auto simp: nebula_body_def nebula_code_def Let_def bindE_Inr split: prod.splits)

lemma generate_nebulae_codes:
  assumes "generate_nebulae cfg i g = Inr (xs, g')"
  shows "map Nebula.code xs = map (nebula_code i) [0..<length xs]"
  using assms unfolding generate_nebulae_def
  by (rule range_codes [rotated]) (rule nebula_body_code)

lemma asteroid_body_code:
  "asteroid_body i k g = Inr (x, g') \<Longrightarrow> Asteroid.code x = asteroid_code i k"
  by (auto simp: asteroid_body_def asteroid_code_def Let_def bindE_Inr split: prod.splits)

lemma generate_asteroids_codes:
  assumes "generate_asteroids cfg i g = Inr (xs, g')"
  shows "map Asteroid.code xs = map (asteroid_code i) [0..<length xs]"
  using assms unfolding generate_asteroids_def
  by (rule range_codes [rotated]) (rule asteroid_body_code)

lemma comet_body_code:
  "comet_body i k g = Inr (x, g') \<Longrightarrow> Comet.code x = comet_code i k"
  by (auto simp: comet_body_def comet_code_def Let_def split: prod.splits)

lemma generate_comets_codes:
  assumes "generate_comets cfg i g = Inr (xs, g')"
  shows "map Comet.code xs = map (comet_code i) [0..<length xs]"
  using assms unfolding generate_comets_def
  by (rule range_codes [rotated]) (rule comet_body_code)

lemma galaxy_codes_distinct:
  "distinct (map (star_code i) [0..<a] @ map (black_hole_code i) [0..<b]
             @ map (nebula_code i) [0..<c] @ map (asteroid_code i) [0..<d]
             @ map (comet_code i) [0..<e])"
proof -
  have "distinct (map (star_code i) [0..<a])"
    by (rule distinct_codes) (simp add: star_code_def py_str_inj)
  moreover have "distinct (map (black_hole_code i) [0..<b])"
    by (rule distinct_codes) (simp add: black_hole_code_def py_str_inj)
  moreover have "distinct (map (nebula_code i) [0..<c])"
    by (rule distinct_codes) (simp add: nebula_code_def py_str_inj)
  moreover have "distinct (map (asteroid_code i) [0..<d])"
    by (rule distinct_codes) (simp add: asteroid_code_def py_str_inj)
  moreover have "distinct (map (comet_code i) [0..<e])"
    by (rule distinct_codes) (simp add: comet_code_def py_str_inj)
  ultimately show ?thesis
    by (auto simp: star_code_def black_hole_code_def nebula_code_def asteroid_code_def
        comet_code_def)
qed

lemma galaxy_body_code:
  "galaxy_body cfg i g = Inr (G, g') \<Longrightarrow> Galaxy.code G = galaxy_code i"
  by (auto simp: galaxy_body_def galaxy_code_def Let_def bindE_Inr)

lemma galaxy_body_scope:
  assumes "galaxy_body cfg i g = Inr (G, g')"
  shows "galaxy_scope_ok i G"
proof -
  from assms obtain g1 g2 g3 g4 where
    s: "generate_stars cfg i g = Inr (stars G, g1)" and
    b: "generate_black_holes cfg i g1 = Inr (black_holes G, g2)" and
    n: "generate_nebulae cfg i g2 = Inr (nebulae G, g3)" and
    a: "generate_asteroids cfg i g3 = Inr (asteroids G, g4)" and
    c: "generate_comets cfg i g4 = Inr (comets G, g')"
    by (auto simp: galaxy_body_def Let_def bindE_Inr)
  note codes = generate_stars_codes [OF s] generate_black_holes_codes [OF b]
    generate_nebulae_codes [OF n] generate_asteroids_codes [OF a] generate_comets_codes [OF c]
  have "distinct (map Star.code (stars G) @ map BlackHole.code (black_holes G)
               @ map Nebula.code (nebulae G) @ map Asteroid.code (asteroids G)
               @ map Comet.code (comets G))"
    unfolding codes by (rule galaxy_codes_distinct)
  with codes generate_stars_scope [OF s] show ?thesis
    unfolding galaxy_scope_ok_def by blast
qed

lemmas gen_defs = generate_galaxies_def py_range_def galaxy_body_def generate_stars_def
  generate_planets_def generate_black_holes_def generate_nebulae_def generate_asteroids_def
  generate_comets_def star_body_def planet_body_def black_hole_body_def nebula_body_def
  asteroid_body_def comet_body_def randint_def bindE_def random_mass_def
  random_temperature_def uniform_def random_random_def choice_def spectral_types_def
  random_bool_chance_def random_minerals_def MINERAL_TYPES_def truediv_def
  MIN_MASS_def MAX_MASS_def MIN_TEMP_def MAX_TEMP_def LIFE_PROBABILITY_def

lemma small_config_runs:
  "\<exists>gs g'. generate_galaxies small_config (sconst (2 ^ 52)) = Inr (gs, g') \<and> length gs = 1
     \<and> length (stars (gs ! 0)) = 2 \<and> length (planets (stars (gs ! 0) ! 1)) = 1"
  by (simp add: gen_defs small_config_def upt_rec Let_def)

text \<open>
  Claim C4. In every generated Universe the code of each object is the one its position
  indices give (\<open>G{i}\<close> for galaxy \<open>i\<close>, \<open>G{i}-S{j}\<close> for its star \<open>j\<close>,
  \<open>G{i}-S{j}-P{k}\<close> for planet \<open>k\<close> of that star, and likewise \<open>BH\<close>, \<open>N\<close>,
  \<open>A\<close>, \<open>C\<close>), whatever the random source delivers, and codes are unique in their
  scope: galaxy codes in the Universe, the codes of all objects of a galaxy among each
  other, planet codes within their star.
\<close>

theorem codes_unique_and_positional:
  assumes "generate_galaxies cfg g = Inr (gs, g')"
  shows "map Galaxy.code gs = map galaxy_code [0..<length gs] \<and>
         distinct (map Galaxy.code gs) \<and>
         (\<forall>i<length gs. galaxy_scope_ok i (gs ! i))"
proof -
  from assms have run: "for_append (galaxy_body cfg) (py_range (NUM_GALAXIES cfg)) [] g = Inr (gs, g')"
    by (simp add: generate_galaxies_def)
  have "list_all2 (\<lambda>i G. Galaxy.code G = galaxy_code i) [0..<length gs] gs"
    using run by (rule for_range_all2 [rotated]) (rule galaxy_body_code)
  then have codes: "map Galaxy.code gs = map galaxy_code [0..<length gs]"
    by (rule all2_codes)
  have "distinct (map galaxy_code [0..<length gs])"
    by (rule distinct_codes) (simp add: galaxy_code_def py_str_inj)
  then have dist: "distinct (map Galaxy.code gs)"
    by (simp only: codes)
  have "list_all2 galaxy_scope_ok [0..<length gs] gs"
    using run by (rule for_range_all2 [rotated]) (rule galaxy_body_scope)
  then have "\<forall>i<length gs. galaxy_scope_ok i (gs ! i)"
    by (blast intro: all2_upt_nth)
  with codes dist show ?thesis by blast
qed

theorem codes_unique_and_positional_witness:
  "\<exists>gs g'. generate_galaxies small_config (sconst (2 ^ 52)) = Inr (gs, g') \<and>
     length gs = 1 \<and> length (stars (gs ! 0)) = 2 \<and>
     length (planets (stars (gs ! 0) ! 1)) = 1 \<and>
     map Galaxy.code gs = map galaxy_code [0..<length gs] \<and>
     distinct (map Galaxy.code gs) \<and>
     (\<forall>i<length gs. galaxy_scope_ok i (gs ! i))"
proof -
  from small_config_runs obtain gs g' where
    run: "generate_galaxies small_config (sconst (2 ^ 52)) = Inr (gs, g')" and
    len: "length gs = 1" "length (stars (gs ! 0)) = 2"
      "length (planets (stars (gs ! 0) ! 1)) = 1"
    by blast
  from codes_unique_and_positional [OF run] run len show ?thesis
    by blast
qed

subsection \<open>Mineral compositions\<close>

lemma random_random_range: "0 \<le> fst (random_random g) \<and> fst (random_random g) < 1"
proof -
  have "shd g mod 2 ^ 53 < 2 ^ 53" by simp
  then have "(of_nat (shd g mod 2 ^ 53) :: rat) < of_nat (2 ^ 53)"
    by (simp only: of_nat_less_iff)
  then show ?thesis by (simp add: random_random_def)
qed

lemma draw_weights_length: "length (fst (draw_weights ms g)) = length ms"
  by (induction ms arbitrary: g) (simp_all add: split_beta)

lemma draw_weights_range:
  "w \<in> set (fst (draw_weights ms g)) \<Longrightarrow> 0 \<le> w \<and> w < 1"
proof (induction ms arbitrary: g)
  case Nil
  then show ?case by simp
next
  case (Cons m ms)
  then show ?case
    using random_random_range [of g] by (auto simp: split_beta)
qed

lemma normalise_zero:
  "kvs \<noteq> [] \<Longrightarrow> normalise 0 kvs = Inl ZeroDivisionError"
  by (cases kvs) (auto simp: truediv_def bindE_def)

lemma normalise_nonzero:
  "tot \<noteq> 0 \<Longrightarrow> normalise tot kvs = Inr (map (\<lambda>(mineral, wt). (mineral, wt / tot)) kvs)"
  by (induction kvs) (auto simp: truediv_def bindE_def)

lemma sum_list_zero_iff:
  fixes ws :: "pyfloat list"
  assumes "\<And>w. w \<in> set ws \<Longrightarrow> 0 \<le> w"
  shows "sum_list ws = 0 \<longleftrightarrow> (\<forall>w\<in>set ws. w = 0)"
  using assms by (simp add: sum_list_nonneg_eq_0_iff)

text \<open>
  Claim C8. \<open>random_minerals\<close> draws eight weights, each in \<open>[0, 1)\<close>, and divides
  them by their sum with no guard: when all eight are \<open>0.0\<close> the division raises
  ZeroDivisionError, and when at least one is positive the function returns a composition.
\<close>

theorem random_minerals_zero_division:
  "length (fst (draw_weights MINERAL_TYPES g)) = 8 \<and>
   (\<forall>w\<in>set (fst (draw_weights MINERAL_TYPES g)). 0 \<le> w \<and> w < 1) \<and>
   ((\<forall>w\<in>set (fst (draw_weights MINERAL_TYPES g)). w = 0)
      \<longrightarrow> random_minerals g = Inl ZeroDivisionError) \<and>
   ((\<exists>w\<in>set (fst (draw_weights MINERAL_TYPES g)). 0 < w)
      \<longrightarrow> (\<exists>d g'. random_minerals g = Inr (d, g')))"
proof -
  define ws where "ws = fst (draw_weights MINERAL_TYPES g)"
  have len: "length ws = 8"
    unfolding ws_def draw_weights_length by (simp add: MINERAL_TYPES_def)
  have rng: "\<forall>w\<in>set ws. 0 \<le> w \<and> w < 1"
    unfolding ws_def by (blast dest: draw_weights_range)
  then have z: "sum_list ws = 0 \<longleftrightarrow> (\<forall>w\<in>set ws. w = 0)"
    by (intro sum_list_zero_iff) blast
  have ne: "zip MINERAL_TYPES ws \<noteq> []"
    using len by (cases ws) (simp_all add: MINERAL_TYPES_def)
  have run: "random_minerals g =
      bindE (normalise (sum_list ws) (zip MINERAL_TYPES ws))
        (\<lambda>d. Inr (d, snd (draw_weights MINERAL_TYPES g)))"
    by (simp add: random_minerals_def ws_def split_beta Let_def)
  have a: "(\<forall>w\<in>set ws. w = 0) \<longrightarrow> random_minerals g = Inl ZeroDivisionError"
    using z ne by (auto simp: run normalise_zero bindE_def)
  have b: "(\<exists>w\<in>set ws. 0 < w) \<longrightarrow> (\<exists>d g'. random_minerals g = Inr (d, g'))"
  proof
    assume "\<exists>w\<in>set ws. 0 < w"
    with z have "sum_list ws \<noteq> 0" by force
    then show "\<exists>d g'. random_minerals g = Inr (d, g')"
      by (simp add: run normalise_nonzero bindE_def)
  qed
  from len rng a b show ?thesis unfolding ws_def by blast
qed

theorem random_minerals_zero_division_witness:
  "random_minerals (sconst 0) = Inl ZeroDivisionError \<and>
   (\<exists>d g'. random_minerals (sconst 1) = Inr (d, g'))"
proof -
  have z: "\<forall>w\<in>set (fst (draw_weights MINERAL_TYPES (sconst 0))). w = 0"
    by (simp add: MINERAL_TYPES_def random_random_def)
  have "(1 / 2 ^ 53 :: rat) \<in> set (fst (draw_weights MINERAL_TYPES (sconst 1)))"
    by (simp add: MINERAL_TYPES_def random_random_def)
  moreover have "(0 :: rat) < 1 / 2 ^ 53"
    by simp
  ultimately have p: "\<exists>w\<in>set (fst (draw_weights MINERAL_TYPES (sconst 1))). 0 < w"
    by (rule rev_bexI)
  from z p random_minerals_zero_division [of "sconst 0"]
    random_minerals_zero_division [of "sconst 1"]
  show ?thesis by blast
qed

lemma sum_list_divide:
  fixes ws :: "pyfloat list"
  shows "sum_list (map (\<lambda>w. w / c) ws) = sum_list ws / c"
  by (induction ws) (simp_all add: add_divide_distrib)

lemma zip_values:
  "length ms = length ws \<Longrightarrow>
   map snd (map (\<lambda>(m, w). (m, f w)) (zip ms ws)) = map f ws"
  by (induction ms ws rule: list_induct2) simp_all

lemma zip_keys:
  "length ms = length ws \<Longrightarrow>
   map fst (map (\<lambda>(m, w). (m, f w)) (zip ms ws)) = ms"
  by (induction ms ws rule: list_induct2) simp_all

text \<open>
  In exact arithmetic a composition that is returned has non-negative values that sum to
  1. What rounding makes of the sum in floating point is outside this model.
\<close>

lemma composition_exact:
  assumes "random_minerals g = Inr (d, g')"
  shows "map fst d = MINERAL_TYPES \<and> (\<forall>v\<in>set (map snd d). 0 \<le> v) \<and> sum_list (map snd d) = 1"
proof -
  define ws where "ws = fst (draw_weights MINERAL_TYPES g)"
  have len: "length ws = length MINERAL_TYPES"
    unfolding ws_def by (rule draw_weights_length)
  have nonneg: "\<forall>w\<in>set ws. 0 \<le> w"
    unfolding ws_def by (blast dest: draw_weights_range)
  then have tot: "0 \<le> sum_list ws"
    by (simp add: sum_list_nonneg)
  have run: "random_minerals g =
      bindE (normalise (sum_list ws) (zip MINERAL_TYPES ws))
        (\<lambda>d. Inr (d, snd (draw_weights MINERAL_TYPES g)))"
    by (simp add: random_minerals_def ws_def split_beta Let_def)
  have ne: "zip MINERAL_TYPES ws \<noteq> []"
    using len by (cases ws) (simp_all add: MINERAL_TYPES_def)
  have nz: "sum_list ws \<noteq> 0"
  proof
    assume "sum_list ws = 0"
    with assms ne show False
      by (simp add: run normalise_zero bindE_def)
  qed
  with assms have d: "d = map (\<lambda>(mineral, wt). (mineral, wt / sum_list ws)) (zip MINERAL_TYPES ws)"
    by (simp add: run normalise_nonzero bindE_def)
  have keys: "map fst d = MINERAL_TYPES"
    unfolding d using len [symmetric] by (rule zip_keys)
  have vals: "map snd d = map (\<lambda>w. w / sum_list ws) ws"
    unfolding d using len [symmetric] by (rule zip_values)
  have "\<forall>v\<in>set (map snd d). 0 \<le> v"
    unfolding vals using nonneg tot by (auto intro: divide_nonneg_nonneg)
  moreover have "sum_list (map snd d) = 1"
    unfolding vals sum_list_divide using nz by simp
  ultimately show ?thesis using keys by blast
qed

subsection \<open>The writer\<close>

lemma length_le_bytes: "length (le_bytes k n) = k"
  by (induction k arbitrary: n) simp_all

lemma le_value_le_bytes: "le_value (le_bytes k n) = n mod 256 ^ k"
proof (induction k arbitrary: n)
  case 0
  then show ?case by simp
next
  case (Suc k)
  have "unat (of_nat (n mod 256) :: byte) = n mod 256"
    by (simp add: unat_of_nat)
  then show ?case
    by (simp add: Suc.IH mod_mult2_eq)
qed

lemma le_value_pack: "n < 2 ^ 64 \<Longrightarrow> le_value (le_bytes 8 n) = n"
  by (simp add: le_value_le_bytes)

lemma length_written: "length (written data) = 8 + length data"
  by (simp add: written_def length_le_bytes)

lemma le_bytes_nonempty: "le_bytes 8 n \<noteq> []"
  using length_le_bytes [of 8 n] by auto

lemma file_seek_accepted:
  assumes "\<not> is_closed f" and "seekable (seek_limit f) t"
  shows "file_seek (t - 1) f = Inr (f\<lparr> offset := nat (t - 1) \<rparr>)"
  using assms by (simp add: file_seek_def seekable_def)

lemma file_seek_refused:
  assumes "\<not> is_closed f" and "\<not> seekable (seek_limit f) t"
  shows "file_seek (t - 1) f = Inl (seek_error t)"
  using assms by (auto simp: file_seek_def seekable_def seek_error_def)

lemma write_universe_opened:
  assumes "dumps (Universe_to_dict u) = Inr data" and "length data < 2 ^ 64"
  shows "write_universe dumps u (opened maxoff fn t) =
     (Returned, \<lparr> filename = fn, target_size = t,
        file' = Some \<lparr> content = written data, offset = 8 + length data, is_closed = False,
                       seek_limit = maxoff \<rparr> \<rparr>)"
  using assms le_bytes_nonempty [of "length data"]
  by (cases "data = []")
    (simp_all add: write_universe_def opened_def UniverseWriter_enter_def UniverseWriter_init_def
      open_wb_def pack_Q_def file_write_def file_flush_def written_def length_le_bytes Let_def)

lemma exit_any_open:
  assumes "file' self = Some f" and "\<not> is_closed f"
    and "seekable (seek_limit f) (target_size self)"
  shows "UniverseWriter_exit self =
     (Returned, self\<lparr> file' := Some \<lparr> content = padded (target_size self) (content f),
                                     offset = nat (target_size self - 1) + 1,
                                     is_closed = True, seek_limit = seek_limit f \<rparr> \<rparr>)"
  using assms(1,2)
  by (simp add: UniverseWriter_exit_def pad_file_def file_seek_accepted [OF assms(2,3)]
      file_write_def file_flush_def file_close_def padded_def)

lemma exit_any_refused:
  assumes "file' self = Some f" and "\<not> is_closed f"
    and "\<not> seekable (seek_limit f) (target_size self)"
  shows "UniverseWriter_exit self = (Raised (seek_error (target_size self)), self)"
  using assms(1)
  by (simp add: UniverseWriter_exit_def pad_file_def file_seek_refused [OF assms(2,3)])

lemma exit_open:
  assumes "seekable maxoff t"
  shows "UniverseWriter_exit \<lparr> filename = fn, target_size = t,
            file' = Some \<lparr> content = bs, offset = k, is_closed = False, seek_limit = maxoff \<rparr> \<rparr> =
     (Returned, \<lparr> filename = fn, target_size = t,
        file' = Some \<lparr> content = padded t bs, offset = nat (t - 1) + 1, is_closed = True,
                       seek_limit = maxoff \<rparr> \<rparr>)"
  using assms
  by (simp add: exit_any_open [where f = "\<lparr> content = bs, offset = k, is_closed = False,
      seek_limit = maxoff \<rparr>"])

lemma exit_refused:
  assumes "\<not> seekable maxoff t"
  shows "UniverseWriter_exit \<lparr> filename = fn, target_size = t,
            file' = Some \<lparr> content = bs, offset = k, is_closed = False, seek_limit = maxoff \<rparr> \<rparr> =
     (Raised (seek_error t), \<lparr> filename = fn, target_size = t,
        file' = Some \<lparr> content = bs, offset = k, is_closed = False, seek_limit = maxoff \<rparr> \<rparr>)"
  using assms
  by (simp add: exit_any_refused [where f = "\<lparr> content = bs, offset = k, is_closed = False,
      seek_limit = maxoff \<rparr>"])




lemma padded_beyond:
  "int (length bs) < t \<Longrightarrow> padded t bs = bs @ replicate (nat (t - 1) - length bs) 0 @ [0]"
  by (simp add: padded_def)

lemma with_writer_returned:
  assumes "dumps (Universe_to_dict u) = Inr data" and "length data < 2 ^ 64"
    and "seekable maxoff t"
  shows "with_writer maxoff dumps fn t u =
     (Returned, \<lparr> filename = fn, target_size = t,
        file' = Some \<lparr> content = padded t (written data), offset = nat (t - 1) + 1,
                       is_closed = True, seek_limit = maxoff \<rparr> \<rparr>)"
  using write_universe_opened [of dumps u data maxoff fn t, OF assms(1,2)] exit_open [OF assms(3)]
  by (simp add: with_writer_def opened_def)

lemma with_writer_refused:
  assumes "dumps (Universe_to_dict u) = Inr data" and "length data < 2 ^ 64"
    and "\<not> seekable maxoff t"
  shows "with_writer maxoff dumps fn t u =
     (Raised (seek_error t), \<lparr> filename = fn, target_size = t,
        file' = Some \<lparr> content = written data, offset = 8 + length data,
                       is_closed = False, seek_limit = maxoff \<rparr> \<rparr>)"
  using write_universe_opened [of dumps u data maxoff fn t, OF assms(1,2)] exit_refused [OF assms(3)]
  by (simp add: with_writer_def opened_def)





lemma take_written: "take 8 (written data @ rest) = le_bytes 8 (length data)"
  by (simp add: written_def length_le_bytes)

lemma drop_written: "take (length data) (drop 8 (written data @ rest)) = data"
  by (simp add: written_def length_le_bytes)

















subsection \<open>Reading back\<close>

lemma those_map_inverse:
  assumes "\<And>x. dec (enc x) = Some x"
  shows "those (map (dec \<circ> enc) xs) = Some xs"
  by (induction xs) (simp_all add: assms)

lemma list_of_inverse:
  assumes "\<And>x. dec (enc x) = Some x"
  shows "list_of dec (PList (map enc xs)) = Some xs"
  by (simp add: list_of_def those_map_inverse [of dec enc, OF assms])

lemma float_dict_inverse: "float_dict_of (float_dict d) = Some d"
proof -
  have "those (map (\<lambda>(k, v). map_option (Pair k) (as_float v))
                (map (\<lambda>(k, v). (k, PFloat v)) d)) = Some d"
    by (induction d) (auto simp: as_float_def)
  then show ?thesis
    by (simp add: float_dict_of_def float_dict_def as_dict_def)
qed

lemmas field_defs = field_def as_dict_def as_str_def as_float_def as_bool_def

lemma Planet_inverse: "Planet_of_dict (Planet_to_dict p) = Some p"
  by (simp add: Planet_of_dict_def Planet_to_dict_def field_defs float_dict_inverse)

lemma Star_inverse: "Star_of_dict (Star_to_dict s) = Some s"
  by (simp add: Star_of_dict_def Star_to_dict_def field_defs
      list_of_inverse [of Planet_of_dict Planet_to_dict, OF Planet_inverse])

lemma BlackHole_inverse: "BlackHole_of_dict (BlackHole_to_dict b) = Some b"
  by (simp add: BlackHole_of_dict_def BlackHole_to_dict_def field_defs)

lemma Nebula_inverse: "Nebula_of_dict (Nebula_to_dict n) = Some n"
  by (simp add: Nebula_of_dict_def Nebula_to_dict_def field_defs float_dict_inverse)

lemma Asteroid_inverse: "Asteroid_of_dict (Asteroid_to_dict a) = Some a"
  by (simp add: Asteroid_of_dict_def Asteroid_to_dict_def field_defs float_dict_inverse)

lemma Comet_inverse: "Comet_of_dict (Comet_to_dict c) = Some c"
  by (simp add: Comet_of_dict_def Comet_to_dict_def field_defs)

lemma Galaxy_inverse: "Galaxy_of_dict (Galaxy_to_dict g) = Some g"
  by (simp add: Galaxy_of_dict_def Galaxy_to_dict_def field_defs
      list_of_inverse [of Star_of_dict Star_to_dict, OF Star_inverse]
      list_of_inverse [of BlackHole_of_dict BlackHole_to_dict, OF BlackHole_inverse]
      list_of_inverse [of Nebula_of_dict Nebula_to_dict, OF Nebula_inverse]
      list_of_inverse [of Asteroid_of_dict Asteroid_to_dict, OF Asteroid_inverse]
      list_of_inverse [of Comet_of_dict Comet_to_dict, OF Comet_inverse])

lemma Universe_inverse: "Universe_of_dict (Universe_to_dict u) = Some u"
  by (simp add: Universe_of_dict_def Universe_to_dict_def field_defs
      list_of_inverse [of Galaxy_of_dict Galaxy_to_dict, OF Galaxy_inverse])

lemma read_written:
  assumes "length data < 2 ^ 64" and "loads data = Some (Universe_to_dict u)"
  shows "read_universe loads (written data @ rest) = Some u"
proof -
  have v: "le_value (take 8 (written data @ rest)) = length data"
    unfolding take_written using assms(1) by (rule le_value_pack)
  have n: "\<not> length (written data @ rest) < 8"
    and m: "\<not> length (written data @ rest) < 8 + length data"
    by (simp_all add: length_written)
  have "read_universe loads (written data @ rest) =
      Option.bind (loads (take (length data) (drop 8 (written data @ rest)))) Universe_of_dict"
    unfolding read_universe_def Let_def v using n m by (simp only: if_False)
  also have "\<dots> = Some u"
    unfolding drop_written by (simp add: assms(2) Universe_inverse)
  finally show ?thesis .
qed

text \<open>
  Claim C2. For every Universe, reading back what \<open>write_universe\<close> wrote (the
  length prefix, then that many bytes, decoded with the inverse of the codec and rebuilt
  from the dictionaries) gives the Universe that was serialized; the padding of a
  \<open>target_size\<close> beyond the written data does not change that, whether the seek
  accepts the target size or not.
\<close>

theorem write_then_read:
  assumes "dumps (Universe_to_dict u) = Inr data" and "length data < 2 ^ 64"
    and "loads data = Some (Universe_to_dict u)"
  shows "Universe_of_dict (Universe_to_dict u) = Some u \<and>
         fst (write_universe dumps u (opened maxoff fn t)) = Returned \<and>
         read_universe loads (final_content (write_universe dumps u (opened maxoff fn t))) = Some u \<and>
         (8 + int (length data) < t \<longrightarrow>
            read_universe loads (final_content (with_writer maxoff dumps fn t u)) = Some u)"
proof -
  note w = write_universe_opened [where dumps = dumps and u = u and fn = fn and t = t,
      OF assms(1,2)]
  have r: "fst (write_universe dumps u (opened maxoff fn t)) = Returned"
    unfolding w by simp
  note rd = read_written [where data = data and loads = loads and u = u, OF assms(2,3)]
  have "read_universe loads (written data @ []) = Some u"
    by (rule rd)
  then have a: "read_universe loads (final_content (write_universe dumps u (opened maxoff fn t)))
      = Some u"
    unfolding w by (simp add: final_content_def)
  have b: "8 + int (length data) < t \<longrightarrow>
      read_universe loads (final_content (with_writer maxoff dumps fn t u)) = Some u"
  proof
    assume big: "8 + int (length data) < t"
    show "read_universe loads (final_content (with_writer maxoff dumps fn t u)) = Some u"
    proof (cases "seekable maxoff t")
      case True
      note run = with_writer_returned [where dumps = dumps and u = u and fn = fn,
          OF assms(1,2) True]
      from big have "int (length (written data)) < t"
        by (simp add: length_written)
      then have p: "padded t (written data) =
          written data @ replicate (nat (t - 1) - length (written data)) 0 @ [0]"
        by (rule padded_beyond)
      show ?thesis
        unfolding run by (simp add: final_content_def p rd)
    next
      case False
      note run = with_writer_refused [where dumps = dumps and u = u and fn = fn,
          OF assms(1,2) False]
      from rd [of "[]"] show ?thesis
        unfolding run by (simp add: final_content_def)
    qed
  qed
  from Universe_inverse r a b show ?thesis by blast
qed

theorem write_then_read_witness:
  "dumps_empty (Universe_to_dict empty_universe) = Inr pickle_empty_universe \<and>
   length pickle_empty_universe < 2 ^ 64 \<and>
   loads_empty pickle_empty_universe = Some (Universe_to_dict empty_universe) \<and>
   read_universe loads_empty
     (final_content (write_universe dumps_empty empty_universe (opened ext4_limit UNIVERSE_FILE 1024)))
     = Some empty_universe \<and>
   8 + int (length pickle_empty_universe) < 1024 \<and>
   read_universe loads_empty
     (final_content (with_writer ext4_limit dumps_empty UNIVERSE_FILE 1024 empty_universe))
     = Some empty_universe"
proof -
  have d: "dumps_empty (Universe_to_dict empty_universe) = Inr pickle_empty_universe"
    by (simp add: dumps_empty_def)
  have l: "length pickle_empty_universe < 2 ^ 64"
    by (simp add: pickle_empty_universe_def)
  have i: "loads_empty pickle_empty_universe = Some (Universe_to_dict empty_universe)"
    by (simp add: loads_empty_def)
  have t: "8 + int (length pickle_empty_universe) < 1024"
    by (simp add: pickle_empty_universe_def)
  from write_then_read [where dumps = dumps_empty and u = empty_universe
      and loads = loads_empty and fn = UNIVERSE_FILE and t = 1024, OF d l i] d l i t
  show ?thesis by blast
qed

subsection \<open>Configurations and errors of generation\<close>




lemma randint_wellformed: "a \<le> b \<Longrightarrow> \<exists>n g'. randint a b g = Inr (n, g')"
  by (simp add: randint_def)

























text \<open>
  A well-formed configuration raises nothing but the ZeroDivisionError of
  \<open>random_minerals\<close>, and the configuration of the boundary scenario, one galaxy and all
  ranges \<open>(0, 0)\<close>, always gives one galaxy with five empty collections.
\<close>

lemma zero_config_one_empty_galaxy:
  "generate_galaxies zero_config g = Inr ([empty_galaxy 0], stl (stl (stl (stl (stl g)))))"
  by (simp add: gen_defs zero_config_def upt_rec Let_def empty_galaxy_def)

text \<open>
  Claim C7 fails on the code at a configuration with well-formed, non-negative ranges:
  one galaxy with one asteroid, when the eight weights of the asteroid's composition are
  all drawn \<open>0.0\<close>. Generation raises ZeroDivisionError instead of returning a Universe.
\<close>

theorem generation_raises_zero_division:
  "0 \<le> NUM_GALAXIES asteroid_config \<and>
   \<not> malformed (STAR_COUNT_RANGE asteroid_config) \<and>
   \<not> malformed (PLANET_COUNT_RANGE asteroid_config) \<and>
   \<not> malformed (BH_COUNT_RANGE asteroid_config) \<and>
   \<not> malformed (NEBULA_COUNT_RANGE asteroid_config) \<and>
   \<not> malformed (ASTEROID_COUNT_RANGE asteroid_config) \<and>
   \<not> malformed (COMET_COUNT_RANGE asteroid_config) \<and>
   0 \<le> fst (ASTEROID_COUNT_RANGE asteroid_config) \<and>
   generate_galaxies asteroid_config (sconst 0) = Inl ZeroDivisionError"
proof -
  have "generate_galaxies asteroid_config (sconst 0) = Inl ZeroDivisionError"
    by (simp add: gen_defs asteroid_config_def upt_rec Let_def)
  then show ?thesis
    by (simp add: asteroid_config_def malformed_def)
qed

end
